theory Spec2Isabelle
  imports Complex_Main
begin

section \<open>JavaScript numbers\<close>

text \<open>
  The viewport engine of \<^verbatim>\<open>assets/js/script.js\<close> computes with JavaScript numbers.
  A number is modelled as a finite real, one of the two infinities, or NaN. Finite
  arithmetic is exact real arithmetic: rounding, overflow to an infinity and the sign of
  zero are not modelled. The non-finite values follow IEEE 754 as JavaScript exposes it:
  NaN is absorbing, \<open>Infinity - Infinity\<close> and \<open>0 * Infinity\<close> and \<open>0 / 0\<close> are NaN,
  and a non-zero finite number divided by zero is an infinity.
\<close>

datatype jnum = Fin real | PInf | NInf | NaN

fun jsign :: "jnum \<Rightarrow> real" where
  "jsign (Fin a) = sgn a"
| "jsign PInf = 1"
| "jsign NInf = - 1"
| "jsign NaN = 0"

definition signed_inf :: "real \<Rightarrow> jnum" where
  "signed_inf r = (if 0 < r then PInf else if r < 0 then NInf else NaN)"

instantiation jnum :: "{plus, minus, uminus, times, inverse}"
begin

fun uminus_jnum :: "jnum \<Rightarrow> jnum" where
  "uminus_jnum (Fin a) = Fin (- a)"
| "uminus_jnum PInf = NInf"
| "uminus_jnum NInf = PInf"
| "uminus_jnum NaN = NaN"

fun plus_jnum :: "jnum \<Rightarrow> jnum \<Rightarrow> jnum" where
  "plus_jnum (Fin a) (Fin b) = Fin (a + b)"
| "plus_jnum NaN _ = NaN"
| "plus_jnum _ NaN = NaN"
| "plus_jnum PInf NInf = NaN"
| "plus_jnum NInf PInf = NaN"
| "plus_jnum PInf _ = PInf"
| "plus_jnum _ PInf = PInf"
| "plus_jnum NInf _ = NInf"
| "plus_jnum _ NInf = NInf"

definition minus_jnum :: "jnum \<Rightarrow> jnum \<Rightarrow> jnum" where
  "minus_jnum a b = a + (- b)"

fun times_jnum :: "jnum \<Rightarrow> jnum \<Rightarrow> jnum" where
  "times_jnum (Fin a) (Fin b) = Fin (a * b)"
| "times_jnum NaN _ = NaN"
| "times_jnum _ NaN = NaN"
| "times_jnum a b = signed_inf (jsign a * jsign b)"

fun divide_jnum :: "jnum \<Rightarrow> jnum \<Rightarrow> jnum" where
  "divide_jnum (Fin a) (Fin b) = (if b = 0 then signed_inf a else Fin (a / b))"
| "divide_jnum NaN _ = NaN"
| "divide_jnum _ NaN = NaN"
| "divide_jnum (Fin a) _ = Fin 0"
| "divide_jnum a (Fin b) = (if b = 0 then a else signed_inf (jsign a * b))"
| "divide_jnum _ _ = NaN"

definition inverse_jnum :: "jnum \<Rightarrow> jnum" where
  "inverse_jnum a = divide (Fin 1) a"

instance ..

end

text \<open>The comparison operators: every comparison with NaN is false.\<close>

fun js_lt :: "jnum \<Rightarrow> jnum \<Rightarrow> bool" where
  "js_lt (Fin a) (Fin b) = (a < b)"
| "js_lt NaN _ = False"
| "js_lt _ NaN = False"
| "js_lt _ NInf = False"
| "js_lt NInf _ = True"
| "js_lt PInf _ = False"
| "js_lt _ PInf = True"

definition js_eq :: "jnum \<Rightarrow> jnum \<Rightarrow> bool" where
  \<comment> \<open>\<^verbatim>\<open>===\<close> on numbers\<close>
  "js_eq a b = (a \<noteq> NaN \<and> a = b)"

definition js_le :: "jnum \<Rightarrow> jnum \<Rightarrow> bool" where
  "js_le a b = (js_lt a b \<or> js_eq a b)"

definition js_gt :: "jnum \<Rightarrow> jnum \<Rightarrow> bool" where
  "js_gt a b = js_lt b a"

definition truthy :: "jnum \<Rightarrow> bool" where
  \<comment> \<open>a number is falsy when it is 0 or NaN\<close>
  "truthy a = (a \<noteq> NaN \<and> a \<noteq> Fin 0)"

definition js_or :: "jnum \<Rightarrow> jnum \<Rightarrow> jnum" where
  \<comment> \<open>\<^verbatim>\<open>a || b\<close> on numbers\<close>
  "js_or a b = (if truthy a then a else b)"

fun isFinite :: "jnum \<Rightarrow> bool" where
  \<comment> \<open>\<^verbatim>\<open>Number.isFinite\<close>\<close>
  "isFinite (Fin a) = True"
| "isFinite _ = False"

definition Math_max :: "jnum \<Rightarrow> jnum \<Rightarrow> jnum" where
  "Math_max a b = (if a = NaN \<or> b = NaN then NaN else if js_lt a b then b else a)"

definition Math_min :: "jnum \<Rightarrow> jnum \<Rightarrow> jnum" where
  "Math_min a b = (if a = NaN \<or> b = NaN then NaN else if js_lt b a then b else a)"

fun Math_abs :: "jnum \<Rightarrow> jnum" where
  "Math_abs (Fin a) = Fin \<bar>a\<bar>"
| "Math_abs PInf = PInf"
| "Math_abs NInf = PInf"
| "Math_abs NaN = NaN"

fun Math_hypot :: "jnum \<Rightarrow> jnum \<Rightarrow> jnum" where
  \<comment> \<open>an infinite argument wins over NaN\<close>
  "Math_hypot (Fin a) (Fin b) = Fin (sqrt (a * a + b * b))"
| "Math_hypot PInf _ = PInf"
| "Math_hypot NInf _ = PInf"
| "Math_hypot _ PInf = PInf"
| "Math_hypot _ NInf = PInf"
| "Math_hypot _ _ = NaN"

fun Math_exp :: "jnum \<Rightarrow> jnum" where
  "Math_exp (Fin a) = Fin (exp a)"
| "Math_exp PInf = PInf"
| "Math_exp NInf = Fin 0"
| "Math_exp NaN = NaN"

fun Math_pow :: "real \<Rightarrow> jnum \<Rightarrow> jnum" where
  \<comment> \<open>\<^verbatim>\<open>Math.pow(b, e)\<close> for a finite base \<open>b > 0\<close>; the source's only base is the
      literal \<^verbatim>\<open>decay\<close>\<close>
  "Math_pow b (Fin e) = Fin (b powr e)"
| "Math_pow b PInf = (if b < 1 then Fin 0 else if b = 1 then NaN else PInf)"
| "Math_pow b NInf = (if b < 1 then PInf else if b = 1 then NaN else Fin 0)"
| "Math_pow b NaN = NaN"

definition clamp :: "jnum \<Rightarrow> jnum \<Rightarrow> jnum \<Rightarrow> jnum" where
  \<comment> \<open>\<^verbatim>\<open>const clamp = (value, min, max) => Math.min(Math.max(value, min), max)\<close>\<close>
  "clamp v lo hi = Math_min (Math_max v lo) hi"

section \<open>The state of the map\<close>

record viewbox =
  vb_x :: jnum
  vb_y :: jnum
  vb_width :: jnum
  vb_height :: jnum

datatype input_type = Mouse | Touch

text \<open>
  A pending animation-frame callback. The two step closures of the source carry their
  captured variables: the inertia step its \<^verbatim>\<open>lastTime\<close>, the centering step the start
  pan, the start time, the target pan and the duration.
\<close>

datatype callback =
    InertiaStep jnum
  | PanAnimStep jnum jnum jnum jnum jnum jnum

text \<open>
  The fields of \<^verbatim>\<open>PosterSessionMap\<close> that the viewport engine uses, the variables that
  the closures of \<^verbatim>\<open>initializeEventListeners\<close> share (from \<open>isPanning\<close> on), and the
  part of the browser they act on: the \<^verbatim>\<open>viewBox\<close> attribute of the svg element, the
  list of pending animation-frame callbacks with the next handle to give out, and the
  log of completion callbacks that were invoked. A completion callback is known by a
  number. The cursor style, \<^verbatim>\<open>preventDefault\<close> and the info panel have no
  bearing on the viewport and are left out, and the \<^verbatim>\<open>viewBox\<close> attribute is kept
  as four numbers rather than as the string the code formats.
\<close>

record map_state =
  currentZoom :: jnum
  minZoom :: jnum
  maxZoom :: jnum
  panX :: jnum
  panY :: jnum
  panVelocityX :: jnum
  panVelocityY :: jnum
  panInertiaFrame :: "nat option"
  panAnimationFrame :: "nat option"
  panAnimationComplete :: "nat option"
  isMultiTouchGesture :: bool
  baseWidth :: jnum
  baseHeight :: jnum
  isPanning :: bool
  startX :: jnum
  startY :: jnum
  initialPanX :: jnum
  initialPanY :: jnum
  lastPointerX :: jnum
  lastPointerY :: jnum
  lastPointerTime :: jnum
  pinchActive :: bool
  pinchStartDistance :: jnum
  pinchStartZoom :: jnum
  panInputType :: input_type
  currentPanMultiplier :: jnum
  viewBoxAttr :: viewbox
  rafQueue :: "(nat \<times> callback) list"
  nextHandle :: nat
  completed :: "nat list"

section \<open>The viewBox\<close>

definition getViewBox :: "map_state \<Rightarrow> viewbox" where
  "getViewBox s =
     (let width = baseWidth s / currentZoom s;
          height = baseHeight s / currentZoom s;
          x = - panX s + (baseWidth s - width) / Fin 2;
          y = - panY s + (baseHeight s - height) / Fin 2
      in \<lparr>vb_x = x, vb_y = y, vb_width = width, vb_height = height\<rparr>)"

definition updateViewBox :: "map_state \<Rightarrow> map_state" where
  "updateViewBox s = s\<lparr>viewBoxAttr := getViewBox s\<rparr>"

text \<open>
  The state the constructor leaves. The four variables \<open>startX\<close>, \<open>startY\<close>,
  \<open>initialPanX\<close> and \<open>initialPanY\<close> are declared without a value; arithmetic on
  \<^verbatim>\<open>undefined\<close> gives NaN, which is what they hold here. The browser hands out
  non-zero handles, so a stored handle is always truthy.
\<close>

definition defaultPanX :: jnum where
  "defaultPanX = Fin (- 60)"

definition defaultPanY :: jnum where
  "defaultPanY = Fin 0"

definition constructed :: map_state where
  "constructed = updateViewBox
     \<lparr>currentZoom = Fin 1, minZoom = Fin 1, maxZoom = Fin 8,
      panX = defaultPanX, panY = defaultPanY,
      panVelocityX = Fin 0, panVelocityY = Fin 0,
      panInertiaFrame = None, panAnimationFrame = None, panAnimationComplete = None,
      isMultiTouchGesture = False,
      baseWidth = Fin 1150, baseHeight = Fin 1360,
      isPanning = False, startX = NaN, startY = NaN, initialPanX = NaN, initialPanY = NaN,
      lastPointerX = Fin 0, lastPointerY = Fin 0, lastPointerTime = Fin 0,
      pinchActive = False, pinchStartDistance = Fin 0, pinchStartZoom = Fin 1,
      panInputType = Mouse, currentPanMultiplier = Fin 1,
      viewBoxAttr = \<lparr>vb_x = Fin 0, vb_y = Fin 0, vb_width = Fin 0, vb_height = Fin 0\<rparr>,
      rafQueue = [], nextHandle = 1, completed = []\<rparr>"

section \<open>Animation frames\<close>

definition requestAnimationFrame :: "callback \<Rightarrow> map_state \<Rightarrow> nat \<times> map_state" where
  "requestAnimationFrame cb s =
     (nextHandle s,
      s\<lparr>rafQueue := rafQueue s @ [(nextHandle s, cb)], nextHandle := Suc (nextHandle s)\<rparr>)"

definition cancelAnimationFrame :: "nat \<Rightarrow> map_state \<Rightarrow> map_state" where
  "cancelAnimationFrame h s = s\<lparr>rafQueue := filter (\<lambda>e. fst e \<noteq> h) (rafQueue s)\<rparr>"

definition stopPanAnimation :: "map_state \<Rightarrow> map_state" where
  "stopPanAnimation s =
     (let s1 = (case panAnimationFrame s of
                  Some h \<Rightarrow> (cancelAnimationFrame h s)\<lparr>panAnimationFrame := None\<rparr>
                | None \<Rightarrow> s)
      in s1\<lparr>panAnimationComplete := None\<rparr>)"

definition stopPanInertia :: "bool \<Rightarrow> map_state \<Rightarrow> map_state" where
  "stopPanInertia resetVelocity s =
     (let s1 = (case panInertiaFrame s of
                  Some h \<Rightarrow> (cancelAnimationFrame h s)\<lparr>panInertiaFrame := None\<rparr>
                | None \<Rightarrow> s)
      in if resetVelocity then s1\<lparr>panVelocityX := Fin 0, panVelocityY := Fin 0\<rparr> else s1)"

section \<open>Inertia\<close>

definition minVelocity :: jnum where
  "minVelocity = Fin 0.0012"

definition decay :: real where
  "decay = 0.93"

definition inertiaStep :: "jnum \<Rightarrow> jnum \<Rightarrow> map_state \<Rightarrow> map_state" where
  \<comment> \<open>the closure \<^verbatim>\<open>step\<close> of \<^verbatim>\<open>startPanInertia\<close>, with its variable \<^verbatim>\<open>lastTime\<close>\<close>
  "inertiaStep lastTime time s =
     (let dt = time - lastTime;
          s1 = updateViewBox (s\<lparr>panX := panX s + panVelocityX s * dt,
                                panY := panY s + panVelocityY s * dt\<rparr>);
          decayFactor = Math_pow decay (dt / Fin 16);
          s2 = s1\<lparr>panVelocityX := panVelocityX s1 * decayFactor,
                  panVelocityY := panVelocityY s1 * decayFactor\<rparr>
      in if js_lt (Math_hypot (panVelocityX s2) (panVelocityY s2)) minVelocity
         then stopPanInertia True s2
         else (let (h, s3) = requestAnimationFrame (InertiaStep time) s2
               in s3\<lparr>panInertiaFrame := Some h\<rparr>))"

definition startPanInertia :: "jnum \<Rightarrow> map_state \<Rightarrow> map_state" where
  \<comment> \<open>\<open>now\<close> is the reading of \<^verbatim>\<open>performance.now()\<close>\<close>
  "startPanInertia now s =
     (let currentVelocity = Math_hypot (panVelocityX s) (panVelocityY s)
      in if js_lt currentVelocity minVelocity then stopPanInertia True s
         else (let s1 = stopPanInertia False s;
                   (h, s2) = requestAnimationFrame (InertiaStep now) s1
               in s2\<lparr>panInertiaFrame := Some h\<rparr>))"

section \<open>The centering animation\<close>


definition animatePan ::
  "jnum \<Rightarrow> jnum \<Rightarrow> jnum \<Rightarrow> nat option \<Rightarrow> jnum \<Rightarrow> map_state \<Rightarrow> map_state" where
  "animatePan targetPanX targetPanY duration onComplete now s =
     (let s1 = s\<lparr>panAnimationComplete := onComplete\<rparr>;
          (h, s2) = requestAnimationFrame
             (PanAnimStep (panX s) (panY s) now targetPanX targetPanY duration) s1
      in s2\<lparr>panAnimationFrame := Some h\<rparr>)"




section \<open>Dragging\<close>

definition vc_max :: jnum where
  "vc_max = Fin 0.75"

definition vc_smoothing :: jnum where
  "vc_smoothing = Fin 0.22"

definition vc_flickMultiplier :: jnum where
  "vc_flickMultiplier = Fin 1.1"

definition vc_flickWindowMs :: jnum where
  "vc_flickWindowMs = Fin 35"

definition vc_flickMax :: jnum where
  "vc_flickMax = Fin 0.9"

definition TOUCH_PAN_MULTIPLIER :: jnum where
  "TOUCH_PAN_MULTIPLIER = Fin 1.4"

definition getPanSpeedMultiplier :: "map_state \<Rightarrow> jnum" where
  "getPanSpeedMultiplier s =
     (let zoomRange = Math_max (maxZoom s - minZoom s) (Fin 0.0001);
          normalized = (currentZoom s - minZoom s) / zoomRange;
          minMultiplier = Fin 1;
          maxMultiplier = Fin 3
      in minMultiplier + normalized * (maxMultiplier - minMultiplier))"

definition recordVelocity :: "jnum \<Rightarrow> jnum \<Rightarrow> jnum \<Rightarrow> map_state \<Rightarrow> map_state" where
  "recordVelocity clientX clientY now s =
     (let s1 =
        (if truthy (lastPointerTime s) then
           (let deltaTime = now - lastPointerTime s
            in if js_gt deltaTime (Fin 0) then
                 (let appliedMultiplier = getPanSpeedMultiplier s * currentPanMultiplier s;
                      deltaPanX = ((clientX - lastPointerX s) / currentZoom s) * appliedMultiplier;
                      deltaPanY = ((clientY - lastPointerY s) / currentZoom s) * appliedMultiplier;
                      vx = deltaPanX / deltaTime;
                      vy = deltaPanY / deltaTime
                  in s\<lparr>panVelocityX := (Fin 1 - vc_smoothing) * panVelocityX s
                          + vc_smoothing * Math_max (- vc_max) (Math_min vc_max vx),
                        panVelocityY := (Fin 1 - vc_smoothing) * panVelocityY s
                          + vc_smoothing * Math_max (- vc_max) (Math_min vc_max vy)\<rparr>)
               else s)
         else s)
      in s1\<lparr>lastPointerX := clientX, lastPointerY := clientY, lastPointerTime := now\<rparr>)"

definition beginPan :: "jnum \<Rightarrow> jnum \<Rightarrow> input_type \<Rightarrow> jnum \<Rightarrow> map_state \<Rightarrow> map_state" where
  "beginPan clientX clientY inputType now s =
     (let s1 = s\<lparr>isPanning := True, panInputType := inputType,
                  currentPanMultiplier := (if inputType = Touch then TOUCH_PAN_MULTIPLIER else Fin 1),
                  startX := clientX, startY := clientY,
                  initialPanX := panX s, initialPanY := panY s\<rparr>;
          s2 = stopPanAnimation (stopPanInertia True s1);
          s3 = s2\<lparr>lastPointerTime := Fin 0, lastPointerX := clientX, lastPointerY := clientY\<rparr>
      in recordVelocity clientX clientY now s3)"

definition updatePan :: "jnum \<Rightarrow> jnum \<Rightarrow> jnum \<Rightarrow> map_state \<Rightarrow> map_state" where
  "updatePan clientX clientY now s =
     (let appliedMultiplier = getPanSpeedMultiplier s * currentPanMultiplier s;
          dx = ((clientX - startX s) / currentZoom s) * appliedMultiplier;
          dy = ((clientY - startY s) / currentZoom s) * appliedMultiplier;
          s1 = updateViewBox (s\<lparr>panX := initialPanX s + dx, panY := initialPanY s + dy\<rparr>)
      in recordVelocity clientX clientY now s1)"

definition endPan :: "bool \<Rightarrow> jnum \<Rightarrow> map_state \<Rightarrow> map_state" where
  \<comment> \<open>\<open>skipInertia\<close> is \<^verbatim>\<open>options.skipInertia\<close>; the two readings of the clock in one
      call are taken as the same instant \<open>now\<close>\<close>
  "endPan skipInertia now s =
     (if \<not> isPanning s then s
      else (let s1 = s\<lparr>isPanning := False, panInputType := Mouse, currentPanMultiplier := Fin 1\<rparr>
            in if \<not> skipInertia then
                 (let sinceLastSample =
                        (if truthy (lastPointerTime s1) then now - lastPointerTime s1 else PInf);
                      s2 = (if js_le sinceLastSample vc_flickWindowMs then
                              (let boost = vc_flickMultiplier;
                                   maxBoosted = vc_flickMax
                               in s1\<lparr>panVelocityX :=
                                        Math_max (- maxBoosted) (Math_min maxBoosted (panVelocityX s1 * boost)),
                                      panVelocityY :=
                                        Math_max (- maxBoosted) (Math_min maxBoosted (panVelocityY s1 * boost))\<rparr>)
                            else s1)
                  in startPanInertia now s2)
               else s1))"

section \<open>Pinching\<close>

text \<open>
  A touch point carries its client coordinates and what
  \<^verbatim>\<open>document.elementFromPoint\<close> finds under it: nothing, an element inside
  \<^verbatim>\<open>#tablePanel\<close>, an interactive element (a marker) or the plain map.
\<close>

datatype hit = NoElement | InTablePanel | Interactive | MapSurface

record touch =
  touch_clientX :: jnum
  touch_clientY :: jnum
  touch_target :: hit

record client_rect =
  rect_left :: jnum
  rect_top :: jnum
  rect_width :: jnum
  rect_height :: jnum

definition getTouchDistance :: "touch \<Rightarrow> touch \<Rightarrow> jnum" where
  "getTouchDistance touchA touchB =
     (let dx = touch_clientX touchA - touch_clientX touchB;
          dy = touch_clientY touchA - touch_clientY touchB
      in Math_hypot dx dy)"

definition getTouchMidpoint :: "touch \<Rightarrow> touch \<Rightarrow> jnum \<times> jnum" where
  "getTouchMidpoint touchA touchB =
     ((touch_clientX touchA + touch_clientX touchB) / Fin 2,
      (touch_clientY touchA + touch_clientY touchB) / Fin 2)"

definition updatePanForPinch ::
  "jnum \<Rightarrow> jnum \<Rightarrow> jnum \<Rightarrow> client_rect \<Rightarrow> map_state \<Rightarrow> map_state" where
  \<comment> \<open>\<open>rect\<close> is what \<^verbatim>\<open>this.svg.getBoundingClientRect()\<close> returns\<close>
  "updatePanForPinch targetZoom centerClientX centerClientY rect s =
     (if js_eq (rect_width rect) (Fin 0) \<or> js_eq (rect_height rect) (Fin 0)
      then updateViewBox (s\<lparr>currentZoom := targetZoom\<rparr>)
      else
        (let vb = getViewBox s;
             fractionX = clamp ((centerClientX - rect_left rect) / rect_width rect) (Fin 0) (Fin 1);
             fractionY = clamp ((centerClientY - rect_top rect) / rect_height rect) (Fin 0) (Fin 1);
             mapCenterX = vb_x vb + vb_width vb * fractionX;
             mapCenterY = vb_y vb + vb_height vb * fractionY;
             nextViewWidth = baseWidth s / targetZoom;
             nextViewHeight = baseHeight s / targetZoom;
             minViewX = Fin 0;
             minViewY = Fin 0;
             maxViewX = Math_max minViewX (baseWidth s - nextViewWidth);
             maxViewY = Math_max minViewY (baseHeight s - nextViewHeight);
             desiredViewX = mapCenterX - fractionX * nextViewWidth;
             desiredViewY = mapCenterY - fractionY * nextViewHeight;
             clampedViewX = clamp desiredViewX minViewX maxViewX;
             clampedViewY = clamp desiredViewY minViewY maxViewY
         in updateViewBox
              (s\<lparr>currentZoom := targetZoom,
                 panX := (baseWidth s - nextViewWidth) / Fin 2 - clampedViewX,
                 panY := (baseHeight s - nextViewHeight) / Fin 2 - clampedViewY\<rparr>)))"

fun startPinch :: "touch list \<Rightarrow> map_state \<Rightarrow> map_state" where
  "startPinch (touchA # touchB # rest) s =
     (let s1 = stopPanAnimation (stopPanInertia True s)
      in s1\<lparr>isPanning := False, pinchActive := True,
            pinchStartDistance := js_or (getTouchDistance touchA touchB) (Fin 0.0001),
            pinchStartZoom := currentZoom s1,
            isMultiTouchGesture := True\<rparr>)"
| "startPinch touches s = s"

definition resetPinchState :: "map_state \<Rightarrow> map_state" where
  "resetPinchState s =
     s\<lparr>pinchActive := False, pinchStartDistance := Fin 0,
       pinchStartZoom := currentZoom s, isMultiTouchGesture := False\<rparr>"

fun handlePinchMove :: "touch list \<Rightarrow> client_rect \<Rightarrow> map_state \<Rightarrow> map_state" where
  "handlePinchMove (touchA # touchB # rest) rect s =
     (if \<not> pinchActive s \<or> js_eq (pinchStartDistance s) (Fin 0) then s
      else
        (let distance = getTouchDistance touchA touchB
         in if \<not> truthy distance then s
            else
              (let midpoint = getTouchMidpoint touchA touchB;
                   scale = distance / pinchStartDistance s;
                   adjustedScale = Fin 1 + (scale - Fin 1) * Fin 2;
                   targetZoom = clamp (pinchStartZoom s * adjustedScale) (minZoom s) (maxZoom s)
               in updatePanForPinch targetZoom (fst midpoint) (snd midpoint) rect s)))"
| "handlePinchMove touches rect s = s"



section \<open>Touch start\<close>

definition touchStartHandler :: "touch list \<Rightarrow> jnum \<Rightarrow> map_state \<Rightarrow> map_state" where
  "touchStartHandler touches now s =
     (let touchCount = length touches
      in if touchCount \<ge> 2 then startPinch touches (s\<lparr>isMultiTouchGesture := True\<rparr>)
         else if touchCount \<noteq> 1 then s
         else
           (let t = hd touches
            in if touch_target t = InTablePanel
               then (stopPanInertia True s)\<lparr>isPanning := False\<rparr>
               else if touch_target t \<noteq> Interactive
               then beginPan (touch_clientX t) (touch_clientY t) Touch now (resetPinchState s)
               else s))"

section \<open>Zooming\<close>

definition wheelHandler :: "jnum \<Rightarrow> nat \<Rightarrow> bool \<Rightarrow> map_state \<Rightarrow> map_state" where
  \<comment> \<open>the listener of \<^verbatim>\<open>wheel\<close>, on \<^verbatim>\<open>e.deltaY\<close>, \<^verbatim>\<open>e.deltaMode\<close> and \<^verbatim>\<open>e.ctrlKey\<close>\<close>
  "wheelHandler deltaY deltaMode ctrlKey s0 =
     (let s = stopPanInertia True s0;
          modeMultiplier = (if deltaMode = 1 then Fin 20 else if deltaMode = 2 then Fin 60 else Fin 1);
          normalizedDelta = deltaY * modeMultiplier
      in if \<not> truthy normalizedDelta then s
         else
           (let WHEEL_INTENSITY = Fin 0.0012;
                PINCH_BASE_INTENSITY = Fin 0.0035;
                PINCH_GAIN = Fin 2;
                intensity =
                  (if ctrlKey then
                     (let absDelta = Math_min (Fin 240) (Math_abs normalizedDelta);
                          deltaFactor = Fin 1 + (absDelta / Fin 120);
                          zoomRange = Math_max (maxZoom s - minZoom s) (Fin 0.0001);
                          zoomNormalized = (currentZoom s - minZoom s) / zoomRange;
                          zoomFactor = Fin 0.9 + zoomNormalized * Fin 1.2
                      in PINCH_BASE_INTENSITY * PINCH_GAIN * deltaFactor * zoomFactor)
                   else WHEEL_INTENSITY);
                zoomFactor = Math_exp (- normalizedDelta * intensity);
                newZoom = Math_min (maxZoom s) (Math_max (minZoom s) (currentZoom s * zoomFactor))
            in if \<not> js_eq newZoom (currentZoom s)
               then updateViewBox (s\<lparr>currentZoom := newZoom\<rparr>)
               else s))"

definition zoomIn :: "map_state \<Rightarrow> map_state" where
  "zoomIn s0 =
     (let s = stopPanAnimation (stopPanInertia True s0)
      in updateViewBox (s\<lparr>currentZoom := Math_min (maxZoom s) (currentZoom s * Fin 1.2)\<rparr>))"

definition zoomOut :: "map_state \<Rightarrow> map_state" where
  "zoomOut s0 =
     (let s = stopPanAnimation (stopPanInertia True s0);
          nextZoom = Math_max (minZoom s) (Math_min (maxZoom s) (currentZoom s / Fin 1.2))
      in updateViewBox (s\<lparr>currentZoom := nextZoom\<rparr>))"

section \<open>Centering\<close>

record focus =
  focus_x :: "jnum option"
  focus_y :: "jnum option"

text \<open>
  The options of \<^verbatim>\<open>centerOnCoordinates\<close>. A field that is absent, or is not of the
  type the code asks for, is \<open>None\<close>; \<^verbatim>\<open>animate\<close> and \<^verbatim>\<open>duration\<close> have defaults.
\<close>

record center_options =
  opt_animate :: bool
  opt_duration :: jnum
  opt_onComplete :: "nat option"
  opt_minZoom :: "jnum option"
  opt_focus :: "focus option"

definition defaultOptions :: center_options where
  "defaultOptions =
     \<lparr>opt_animate = True, opt_duration = Fin 300, opt_onComplete = None,
      opt_minZoom = None, opt_focus = None\<rparr>"

definition clampFraction :: "jnum \<Rightarrow> jnum" where
  "clampFraction v = (if \<not> isFinite v then Fin 0.5 else Math_min (Math_max v (Fin 0)) (Fin 1))"

definition calculatePanForCoordinates ::
  "jnum \<Rightarrow> jnum \<Rightarrow> focus option \<Rightarrow> map_state \<Rightarrow> jnum \<times> jnum" where
  "calculatePanForCoordinates x y foc s =
     (let focusConfig = (case foc of Some f \<Rightarrow> f | None \<Rightarrow> \<lparr>focus_x = None, focus_y = None\<rparr>);
          width = baseWidth s / currentZoom s;
          height = baseHeight s / currentZoom s;
          minX = Fin 0;
          minY = Fin 0;
          maxX = Math_max minX (baseWidth s - width);
          maxY = Math_max minY (baseHeight s - height);
          focusX = clampFraction (case focus_x focusConfig of Some v \<Rightarrow> v | None \<Rightarrow> Fin 0.5);
          focusY = clampFraction (case focus_y focusConfig of Some v \<Rightarrow> v | None \<Rightarrow> Fin 0.5);
          desiredX = x - width * focusX;
          desiredY = y - height * focusY;
          clampedX = Math_min (Math_max desiredX minX) maxX;
          clampedY = Math_min (Math_max desiredY minY) maxY
      in ((baseWidth s - width) / Fin 2 - clampedX, (baseHeight s - height) / Fin 2 - clampedY))"

definition centerOnCoordinates ::
  "jnum \<Rightarrow> jnum \<Rightarrow> center_options \<Rightarrow> bool \<Rightarrow> jnum \<Rightarrow> map_state \<Rightarrow> map_state" where
  \<comment> \<open>\<open>mobile\<close> is whether the media query \<^verbatim>\<open>(max-width: 768px)\<close> matches\<close>
  "centerOnCoordinates x y options mobile now s0 =
     (if \<not> isFinite x \<or> \<not> isFinite y then s0
      else
        (let s1 = (case opt_minZoom options of
                     Some mz \<Rightarrow>
                       if isFinite mz
                       then s0\<lparr>currentZoom := Math_min (maxZoom s0) (Math_max (currentZoom s0) mz)\<rparr>
                       else if mobile \<and> js_lt (currentZoom s0) (Fin 2.1)
                       then s0\<lparr>currentZoom := Math_min (maxZoom s0) (Fin 2.1)\<rparr>
                       else s0
                   | None \<Rightarrow>
                       if mobile \<and> js_lt (currentZoom s0) (Fin 2.1)
                       then s0\<lparr>currentZoom := Math_min (maxZoom s0) (Fin 2.1)\<rparr>
                       else s0);
             s2 = stopPanAnimation (stopPanInertia True s1);
             targetPan = calculatePanForCoordinates x y (opt_focus options) s2
         in if opt_animate options \<and> js_gt (opt_duration options) (Fin 0)
            then animatePan (fst targetPan) (snd targetPan) (opt_duration options)
                   (opt_onComplete options) now s2
            else
              (let s3 = updateViewBox (s2\<lparr>panX := fst targetPan, panY := snd targetPan\<rparr>)
               in case opt_onComplete options of
                    Some c \<Rightarrow> s3\<lparr>completed := completed s3 @ [c]\<rparr>
                  | None \<Rightarrow> s3)))"

section \<open>Event sequences and the predicates of the properties\<close>

definition zoomInBounds :: "map_state \<Rightarrow> bool" where
  "zoomInBounds s = (js_le (minZoom s) (currentZoom s) \<and> js_le (currentZoom s) (maxZoom s))"

definition velocityWithin :: "jnum \<Rightarrow> map_state \<Rightarrow> bool" where
  "velocityWithin cap s =
     (js_le (Math_abs (panVelocityX s)) cap \<and> js_le (Math_abs (panVelocityY s)) cap)"

fun dragMoves :: "(jnum \<times> jnum \<times> jnum) list \<Rightarrow> map_state \<Rightarrow> map_state" where
  \<comment> \<open>the pointer moves of one drag, each with its client position and the clock reading:
      while panning, the listeners of \<^verbatim>\<open>mousemove\<close> and of a single-touch
      \<^verbatim>\<open>touchmove\<close> both call \<^verbatim>\<open>updatePan\<close>\<close>
  "dragMoves [] s = s"
| "dragMoves ((clientX, clientY, now) # moves) s = dragMoves moves (updatePan clientX clientY now s)"


definition dragReady :: "map_state \<Rightarrow> bool" where
  "dragReady s =
     (isFinite (currentZoom s) \<and> currentZoom s \<noteq> Fin 0 \<and> isFinite (minZoom s)
      \<and> isFinite (maxZoom s) \<and> isFinite (lastPointerX s) \<and> isFinite (lastPointerY s)
      \<and> isFinite (currentPanMultiplier s))"

definition motionTracked :: "map_state \<Rightarrow> bool" where
  \<comment> \<open>every pending callback is one whose handle the map still holds\<close>
  "motionTracked s =
     (\<forall>e \<in> set (rafQueue s). panInertiaFrame s = Some (fst e) \<or> panAnimationFrame s = Some (fst e))"

definition machineIdle :: "map_state \<Rightarrow> bool" where
  \<comment> \<open>the Idle state of the gesture state machine: no pan and no pinch is in progress,
      no inertia loop and no centering animation is running\<close>
  "machineIdle s =
     (\<not> isPanning s \<and> \<not> pinchActive s
      \<and> panInertiaFrame s = None \<and> panAnimationFrame s = None)"

section \<open>Sample inputs and states\<close>

definition square_rect :: client_rect where
  \<comment> \<open>a sample client rectangle, 100 by 100 pixels at the origin\<close>
  "square_rect = \<lparr>rect_left = Fin 0, rect_top = Fin 0, rect_width = Fin 100, rect_height = Fin 100\<rparr>"

definition two_touches :: "touch list" where
  "two_touches = [\<lparr>touch_clientX = Fin 10, touch_clientY = Fin 50, touch_target = MapSurface\<rparr>,
                  \<lparr>touch_clientX = Fin 90, touch_clientY = Fin 50, touch_target = MapSurface\<rparr>]"

definition sample_drag :: map_state where
  \<comment> \<open>a sample mouse drag from the constructed state, released 4 ms after the last move\<close>
  "sample_drag = endPan False (Fin 1020) (updatePan (Fin 150) (Fin 130) (Fin 1016)
                (beginPan (Fin 100) (Fin 100) Mouse (Fin 1000) constructed))"

definition sample_centering :: map_state where
  \<comment> \<open>the constructed state after a call to centre on the origin, its animation pending\<close>
  "sample_centering = centerOnCoordinates (Fin 0) (Fin 0) defaultOptions False (Fin 1000) constructed"

definition sample_pan :: map_state where
  \<comment> \<open>the constructed state after a touch has begun a pan\<close>
  "sample_pan = touchStartHandler
     [\<lparr>touch_clientX = Fin 10, touch_clientY = Fin 50, touch_target = MapSurface\<rparr>]
     (Fin 1000) constructed"

definition sample_pinch :: map_state where
  \<comment> \<open>the sample pan, interrupted by a second touch\<close>
  "sample_pinch = touchStartHandler two_touches (Fin 1200) sample_pan"

definition right_touch :: touch where
  "right_touch = \<lparr>touch_clientX = Fin 90, touch_clientY = Fin 50, touch_target = MapSurface\<rparr>"

definition nan_touch :: touch where
  "nan_touch = \<lparr>touch_clientX = NaN, touch_clientY = Fin 50, touch_target = MapSurface\<rparr>"

definition inf_touch :: touch where
  "inf_touch = \<lparr>touch_clientX = PInf, touch_clientY = Fin 50, touch_target = MapSurface\<rparr>"


section \<open>Arithmetic on finite numbers\<close>

lemma minus_Fin [simp]: "Fin a - Fin b = Fin (a - b)"
  by (simp add: minus_jnum_def)

lemma Math_max_Fin [simp]: "Math_max (Fin a) (Fin b) = Fin (max a b)"
  by (simp add: Math_max_def max_def)

lemma Math_min_Fin [simp]: "Math_min (Fin a) (Fin b) = Fin (min a b)"
  by (simp add: Math_min_def min_def)

lemma clamp_Fin [simp]: "clamp (Fin v) (Fin lo) (Fin hi) = Fin (min (max v lo) hi)"
  by (simp add: clamp_def)

lemma js_eq_Fin [simp]: "js_eq (Fin a) (Fin b) = (a = b)"
  by (simp add: js_eq_def)

lemma js_le_Fin [simp]: "js_le (Fin a) (Fin b) = (a \<le> b)"
  by (auto simp add: js_le_def)

lemma js_gt_Fin [simp]: "js_gt (Fin a) (Fin b) = (b < a)"
  by (simp add: js_gt_def)

lemma truthy_Fin [simp]: "truthy (Fin a) = (a \<noteq> 0)"
  by (simp add: truthy_def)

lemma getViewBox_Fin:
  assumes "currentZoom s = Fin z" and "z \<noteq> 0"
    and "panX s = Fin px" and "panY s = Fin py"
    and "baseWidth s = Fin bw" and "baseHeight s = Fin bh"
  shows "getViewBox s =
     \<lparr>vb_x = Fin (- px + (bw - bw / z) / 2), vb_y = Fin (- py + (bh - bh / z) / 2),
      vb_width = Fin (bw / z), vb_height = Fin (bh / z)\<rparr>"
  using assms by (simp add: getViewBox_def Let_def)

lemma constructed_fields:
  "currentZoom constructed = Fin 1" "minZoom constructed = Fin 1" "maxZoom constructed = Fin 8"
  "panX constructed = Fin (- 60)" "panY constructed = Fin 0"
  "baseWidth constructed = Fin 1150" "baseHeight constructed = Fin 1360"
  "panVelocityX constructed = Fin 0" "panVelocityY constructed = Fin 0"
  "panInertiaFrame constructed = None" "panAnimationFrame constructed = None"
  "rafQueue constructed = []" "isPanning constructed = False" "pinchActive constructed = False"
  by (simp_all add: constructed_def updateViewBox_def defaultPanX_def defaultPanY_def)

section \<open>What each operation leaves alone\<close>

lemma getViewBox_updateViewBox [simp]: "getViewBox (updateViewBox s) = getViewBox s"
  by (simp add: getViewBox_def updateViewBox_def)

lemma stopPanInertia_keeps [simp]:
  "panX (stopPanInertia r s) = panX s" "panY (stopPanInertia r s) = panY s"
  "currentZoom (stopPanInertia r s) = currentZoom s"
  "minZoom (stopPanInertia r s) = minZoom s" "maxZoom (stopPanInertia r s) = maxZoom s"
  "baseWidth (stopPanInertia r s) = baseWidth s" "baseHeight (stopPanInertia r s) = baseHeight s"
  "panAnimationFrame (stopPanInertia r s) = panAnimationFrame s"
  "panInertiaFrame (stopPanInertia r s) = None"
  "isPanning (stopPanInertia r s) = isPanning s"
  "pinchActive (stopPanInertia r s) = pinchActive s"
  by (simp_all add: stopPanInertia_def cancelAnimationFrame_def Let_def split: option.split)

lemma stopPanAnimation_keeps [simp]:
  "panX (stopPanAnimation s) = panX s" "panY (stopPanAnimation s) = panY s"
  "currentZoom (stopPanAnimation s) = currentZoom s"
  "minZoom (stopPanAnimation s) = minZoom s" "maxZoom (stopPanAnimation s) = maxZoom s"
  "baseWidth (stopPanAnimation s) = baseWidth s" "baseHeight (stopPanAnimation s) = baseHeight s"
  "panVelocityX (stopPanAnimation s) = panVelocityX s"
  "panVelocityY (stopPanAnimation s) = panVelocityY s"
  "panInertiaFrame (stopPanAnimation s) = panInertiaFrame s"
  "panAnimationFrame (stopPanAnimation s) = None"
  "isPanning (stopPanAnimation s) = isPanning s"
  "pinchActive (stopPanAnimation s) = pinchActive s"
  by (simp_all add: stopPanAnimation_def cancelAnimationFrame_def Let_def split: option.split)

lemma recordVelocity_keeps [simp]:
  "panX (recordVelocity x y t s) = panX s" "panY (recordVelocity x y t s) = panY s"
  "currentZoom (recordVelocity x y t s) = currentZoom s"
  "minZoom (recordVelocity x y t s) = minZoom s" "maxZoom (recordVelocity x y t s) = maxZoom s"
  "baseWidth (recordVelocity x y t s) = baseWidth s"
  "baseHeight (recordVelocity x y t s) = baseHeight s"
  "isPanning (recordVelocity x y t s) = isPanning s"
  "startX (recordVelocity x y t s) = startX s" "startY (recordVelocity x y t s) = startY s"
  "initialPanX (recordVelocity x y t s) = initialPanX s"
  "initialPanY (recordVelocity x y t s) = initialPanY s"
  "currentPanMultiplier (recordVelocity x y t s) = currentPanMultiplier s"
  "lastPointerTime (recordVelocity x y t s) = t"
  by (simp_all add: recordVelocity_def Let_def)

lemma startPanInertia_keeps [simp]:
  "panX (startPanInertia t s) = panX s" "panY (startPanInertia t s) = panY s"
  "currentZoom (startPanInertia t s) = currentZoom s"
  by (simp_all add: startPanInertia_def requestAnimationFrame_def Let_def)

lemma endPan_keeps [simp]:
  "panX (endPan k t s) = panX s" "panY (endPan k t s) = panY s"
  "currentZoom (endPan k t s) = currentZoom s"
  by (simp_all add: endPan_def Let_def)

lemma getPanSpeedMultiplier_min_zoom:
  assumes "currentZoom s = Fin z" and "minZoom s = Fin z" and "maxZoom s = Fin mx"
  shows "getPanSpeedMultiplier s = Fin 1"
  using assms by (simp add: getPanSpeedMultiplier_def Let_def max_def)

lemma beginPan_fields:
  "panX (beginPan x y ty t s) = panX s" "panY (beginPan x y ty t s) = panY s"
  "currentZoom (beginPan x y ty t s) = currentZoom s"
  "minZoom (beginPan x y ty t s) = minZoom s" "maxZoom (beginPan x y ty t s) = maxZoom s"
  "startX (beginPan x y ty t s) = x" "startY (beginPan x y ty t s) = y"
  "initialPanX (beginPan x y ty t s) = panX s" "initialPanY (beginPan x y ty t s) = panY s"
  "currentPanMultiplier (beginPan x y ty t s) = (if ty = Touch then TOUCH_PAN_MULTIPLIER else Fin 1)"
  "isPanning (beginPan x y ty t s) = True"
  by (simp_all add: beginPan_def Let_def stopPanInertia_def stopPanAnimation_def
      cancelAnimationFrame_def split: option.split)

lemma updatePanForPinch_Fin:
  assumes "currentZoom s = Fin z" and "z \<noteq> 0"
    and "panX s = Fin px" and "panY s = Fin py"
    and "baseWidth s = Fin bw" and "baseHeight s = Fin bh"
    and "rect_left rect = Fin l" and "rect_top rect = Fin tp"
    and "rect_width rect = Fin w" and "rect_height rect = Fin h"
    and "w \<noteq> 0" and "h \<noteq> 0" and "tz \<noteq> 0"
  shows "updatePanForPinch (Fin tz) (Fin cx) (Fin cy) rect s =
    updateViewBox (s\<lparr>currentZoom := Fin tz,
      panX := Fin ((bw - bw / tz) / 2 -
         min (max ((- px + (bw - bw / z) / 2) + bw / z * min (max ((cx - l) / w) 0) 1
                   - min (max ((cx - l) / w) 0) 1 * (bw / tz)) 0) (max 0 (bw - bw / tz))),
      panY := Fin ((bh - bh / tz) / 2 -
         min (max ((- py + (bh - bh / z) / 2) + bh / z * min (max ((cy - tp) / h) 0) 1
                   - min (max ((cy - tp) / h) 0) 1 * (bh / tz)) 0) (max 0 (bh - bh / tz)))\<rparr>)"
  using assms by (simp add: updatePanForPinch_def getViewBox_Fin Let_def)

lemma clamp_bounds:
  fixes d m :: real
  shows "0 \<le> min (max d 0) (max 0 m)" and "min (max d 0) (max 0 m) \<le> max 0 m"
  by simp_all

lemma square_rect_fields:
  "rect_left square_rect = Fin 0" "rect_top square_rect = Fin 0"
  "rect_width square_rect = Fin 100" "rect_height square_rect = Fin 100"
  by (simp_all add: square_rect_def)

lemma isFinite_iff: "isFinite a = (\<exists>r. a = Fin r)"
  by (cases a) simp_all

lemma updateViewBox_keeps [simp]:
  "currentZoom (updateViewBox s) = currentZoom s"
  "minZoom (updateViewBox s) = minZoom s" "maxZoom (updateViewBox s) = maxZoom s"
  "panX (updateViewBox s) = panX s" "panY (updateViewBox s) = panY s"
  "panVelocityX (updateViewBox s) = panVelocityX s"
  "panVelocityY (updateViewBox s) = panVelocityY s"
  by (simp_all add: updateViewBox_def)

section \<open>The zoom after each operation\<close>

lemma absDelta_Fin: "nd \<noteq> NaN \<Longrightarrow> \<exists>a\<ge>0. Math_min (Fin 240) (Math_abs nd) = Fin a"
  by (cases nd) (auto simp add: Math_min_def)

lemma exp_scaled_cases:
  "nd \<noteq> NaN \<Longrightarrow> 0 < i
   \<Longrightarrow> (\<exists>f\<ge>0. Math_exp (- nd * Fin i) = Fin f) \<or> Math_exp (- nd * Fin i) = PInf"
  by (cases nd) (simp_all add: signed_inf_def)

lemma clamp_zoom_factor:
  assumes "mn \<le> mx" and "0 < z" and "(\<exists>f\<ge>0. e = Fin f) \<or> e = PInf"
  shows "\<exists>n. Math_min (Fin mx) (Math_max (Fin mn) (Fin z * e)) = Fin n \<and> mn \<le> n \<and> n \<le> mx"
  using assms by (auto simp add: Math_min_def Math_max_def signed_inf_def sgn_if)

lemma wheel_intensity:
  assumes "nd \<noteq> NaN" and "mn \<le> mx" and "mn \<le> z"
  shows "\<exists>i>0. (if ctrlKey then
        Fin 0.0035 * Fin 2 * (Fin 1 + (Math_min (Fin 240) (Math_abs nd) / Fin 120))
         * (Fin 0.9 + ((Fin z - Fin mn) / Math_max (Fin mx - Fin mn) (Fin 0.0001)) * Fin 1.2)
      else Fin 0.0012) = Fin i"
proof (cases ctrlKey)
  case False
  then show ?thesis by (intro exI [of _ "0.0012"]) simp
next
  case True
  obtain a where a: "0 \<le> a" "Math_min (Fin 240) (Math_abs nd) = Fin a"
    using absDelta_Fin [OF assms(1)] by blast
  define val where
    "val = 0.0035 * 2 * (1 + a / 120) * (0.9 + (z - mn) / max (mx - mn) 0.0001 * 1.2)"
  have "0 \<le> (z - mn) / max (mx - mn) 0.0001"
    using assms by simp
  then have "0 \<le> (z - mn) / max (mx - mn) 0.0001 * 1.2"
    by (rule mult_nonneg_nonneg) simp
  moreover have "0 \<le> a / 120"
    using a(1) by simp
  ultimately have pos: "0 < val"
    unfolding val_def by (intro mult_pos_pos add_pos_nonneg) simp_all
  have nz: "max (mx - mn) 0.0001 \<noteq> (0::real)"
    by simp
  have e: "Fin 0.0035 * Fin 2 * (Fin 1 + (Fin a / Fin 120))
         * (Fin 0.9 + ((Fin z - Fin mn) / Math_max (Fin mx - Fin mn) (Fin 0.0001)) * Fin 1.2)
      = Fin val"
    unfolding val_def using nz by simp
  show ?thesis
  proof (intro exI conjI)
    show "0 < val" by (rule pos)
    show "(if ctrlKey then
        Fin 0.0035 * Fin 2 * (Fin 1 + (Math_min (Fin 240) (Math_abs nd) / Fin 120))
         * (Fin 0.9 + ((Fin z - Fin mn) / Math_max (Fin mx - Fin mn) (Fin 0.0001)) * Fin 1.2)
      else Fin 0.0012) = Fin val"
      using True by (simp only: if_True a(2) e)
  qed
qed

lemma wheel_zoom:
  assumes "minZoom s = Fin mn" and "maxZoom s = Fin mx" and "mn \<le> mx"
    and "currentZoom s = Fin z" and "0 < z" and "mn \<le> z" and "z \<le> mx"
  shows "\<exists>z'. currentZoom (wheelHandler deltaY deltaMode ctrlKey s) = Fin z' \<and> mn \<le> z' \<and> z' \<le> mx"
proof -
  define s1 where "s1 = stopPanInertia True s"
  define nd where
    "nd = deltaY * (if deltaMode = 1 then Fin 20 else if deltaMode = 2 then Fin 60 else Fin 1)"
  define int where "int = (if ctrlKey then
        Fin 0.0035 * Fin 2 * (Fin 1 + (Math_min (Fin 240) (Math_abs nd) / Fin 120))
         * (Fin 0.9 + ((currentZoom s1 - minZoom s1) / Math_max (maxZoom s1 - minZoom s1) (Fin 0.0001)) * Fin 1.2)
      else Fin 0.0012)"
  define newZoom where
    "newZoom = Math_min (maxZoom s1) (Math_max (minZoom s1) (currentZoom s1 * Math_exp (- nd * int)))"
  have unfold: "wheelHandler deltaY deltaMode ctrlKey s =
      (if \<not> truthy nd then s1
       else if \<not> js_eq newZoom (currentZoom s1) then updateViewBox (s1\<lparr>currentZoom := newZoom\<rparr>)
       else s1)"
    unfolding newZoom_def int_def nd_def s1_def wheelHandler_def Let_def by (rule refl)
  have s1: "minZoom s1 = Fin mn" "maxZoom s1 = Fin mx" "currentZoom s1 = Fin z"
    using assms by (simp_all add: s1_def)
  show ?thesis
  proof (cases "truthy nd")
    case False
    then show ?thesis
      using assms s1 by (simp add: unfold)
  next
    case True
    then have nn: "nd \<noteq> NaN" by (simp add: truthy_def)
    obtain i where i: "0 < i" and ieq: "int = Fin i"
      using wheel_intensity [OF nn assms(3,6)] unfolding int_def s1 by blast
    obtain n where n: "newZoom = Fin n" "mn \<le> n" "n \<le> mx"
      using clamp_zoom_factor [OF assms(3,5) exp_scaled_cases [OF nn i]]
      unfolding newZoom_def s1 ieq by blast
    have "currentZoom (wheelHandler deltaY deltaMode ctrlKey s) = Fin n"
      using True by (simp add: unfold n(1) s1)
    then show ?thesis using n by simp
  qed
qed

lemma wheel_bounds_kept:
  "minZoom (wheelHandler deltaY deltaMode ctrlKey s) = minZoom s"
  "maxZoom (wheelHandler deltaY deltaMode ctrlKey s) = maxZoom s"
  by (simp_all add: wheelHandler_def Let_def)

lemma updatePanForPinch_zoom [simp]:
  "currentZoom (updatePanForPinch tz cx cy rect s) = tz"
  "minZoom (updatePanForPinch tz cx cy rect s) = minZoom s"
  "maxZoom (updatePanForPinch tz cx cy rect s) = maxZoom s"
  by (simp_all add: updatePanForPinch_def Let_def)

lemma handlePinchMove_bounds_kept:
  "minZoom (handlePinchMove touches rect s) = minZoom s"
  "maxZoom (handlePinchMove touches rect s) = maxZoom s"
  by (induction touches rect s rule: handlePinchMove.induct; simp add: Let_def)+

lemma hypot_cases:
  "Math_hypot a b = NaN \<or> Math_hypot a b = PInf \<or> (\<exists>r. Math_hypot a b = Fin r)"
  by (cases a; cases b) simp_all

lemma pinch_target_in_bounds:
  assumes "mn \<le> mx" and "0 < zs" and "d \<noteq> 0" and "gap = PInf \<or> (\<exists>r. gap = Fin r)"
  shows "\<exists>n. clamp (Fin zs * (Fin 1 + (gap / Fin d - Fin 1) * Fin 2)) (Fin mn) (Fin mx) = Fin n
           \<and> mn \<le> n \<and> n \<le> mx"
  using assms(4)
proof
  assume "gap = PInf"
  then show ?thesis
    using assms(1,2,3)
    by (auto simp add: clamp_def Math_min_def Math_max_def signed_inf_def minus_jnum_def sgn_if)
next
  assume "\<exists>r. gap = Fin r"
  then show ?thesis
    using assms(1,3) by auto
qed

lemma pinch_zoom:
  assumes "minZoom s = Fin mn" and "maxZoom s = Fin mx" and "mn \<le> mx"
    and "currentZoom s = Fin z" and "mn \<le> z" and "z \<le> mx"
    and "pinchStartDistance s = Fin d" and "pinchStartZoom s = Fin zs" and "0 < zs"
  shows "\<exists>z'. currentZoom (handlePinchMove touches rect s) = Fin z' \<and> mn \<le> z' \<and> z' \<le> mx"
proof (cases touches)
  case Nil
  then show ?thesis using assms by simp
next
  case (Cons touchA ts)
  show ?thesis
  proof (cases ts)
    case Nil
    then show ?thesis using assms Cons by simp
  next
    case (Cons touchB rest)
    note 1 = \<open>touches = touchA # ts\<close> Cons
    define gap where "gap = getTouchDistance touchA touchB"
    have unfold: "handlePinchMove touches rect s =
      (if \<not> pinchActive s \<or> d = 0 then s
       else if \<not> truthy gap then s
       else updatePanForPinch
          (clamp (Fin zs * (Fin 1 + (gap / Fin d - Fin 1) * Fin 2)) (Fin mn) (Fin mx))
          (fst (getTouchMidpoint touchA touchB)) (snd (getTouchMidpoint touchA touchB)) rect s)"
      by (simp add: 1 Let_def gap_def assms(1,2,7,8))
    show ?thesis
    proof (cases "\<not> pinchActive s \<or> d = 0 \<or> \<not> truthy gap")
      case True
      then show ?thesis using assms(4,5,6) by (auto simp add: unfold)
    next
      case False
      then have "gap = PInf \<or> (\<exists>r. gap = Fin r)"
        using hypot_cases [of "touch_clientX touchA - touch_clientX touchB"
            "touch_clientY touchA - touch_clientY touchB"]
        by (auto simp add: gap_def getTouchDistance_def Let_def truthy_def)
      then obtain n where
        "clamp (Fin zs * (Fin 1 + (gap / Fin d - Fin 1) * Fin 2)) (Fin mn) (Fin mx) = Fin n"
        "mn \<le> n" "n \<le> mx"
        using pinch_target_in_bounds [OF assms(3,9)] False by blast
      then show ?thesis
        using False by (simp add: unfold)
    qed
  qed
qed

lemma zoomIn_zoom:
  assumes "minZoom s = Fin mn" and "maxZoom s = Fin mx" and "0 < mn" and "mn \<le> mx"
    and "currentZoom s = Fin z" and "mn \<le> z" and "z \<le> mx"
  shows "currentZoom (zoomIn s) = Fin (min mx (z * 1.2))" "minZoom (zoomIn s) = Fin mn"
    "maxZoom (zoomIn s) = Fin mx"
  using assms by (simp_all add: zoomIn_def Let_def)

lemma zoomOut_zoom:
  assumes "minZoom s = Fin mn" and "maxZoom s = Fin mx"
    and "currentZoom s = Fin z"
  shows "currentZoom (zoomOut s) = Fin (max mn (min mx (z / 1.2)))" "minZoom (zoomOut s) = Fin mn"
    "maxZoom (zoomOut s) = Fin mx"
  using assms by (simp_all add: zoomOut_def Let_def)

lemma animatePan_keeps [simp]:
  "currentZoom (animatePan tx ty d c t s) = currentZoom s"
  "minZoom (animatePan tx ty d c t s) = minZoom s"
  "maxZoom (animatePan tx ty d c t s) = maxZoom s"
  "panX (animatePan tx ty d c t s) = panX s" "panY (animatePan tx ty d c t s) = panY s"
  by (simp_all add: animatePan_def requestAnimationFrame_def Let_def)

lemma center_bounds_kept:
  "minZoom (centerOnCoordinates x y options mobile now s) = minZoom s"
  "maxZoom (centerOnCoordinates x y options mobile now s) = maxZoom s"
  by (simp_all add: centerOnCoordinates_def Let_def split: option.split)

lemma center_zoom:
  assumes "minZoom s = Fin mn" and "maxZoom s = Fin mx" and "mn \<le> mx"
    and "currentZoom s = Fin z" and "mn \<le> z" and "z \<le> mx"
  shows "\<exists>z'. currentZoom (centerOnCoordinates x y options mobile now s) = Fin z'
           \<and> mn \<le> z' \<and> z' \<le> mx"
  using assms
  by (auto simp add: centerOnCoordinates_def Let_def isFinite_iff split: option.split)

lemma zoomInBounds_FinD:
  assumes "minZoom s = Fin mn" and "maxZoom s = Fin mx" and "zoomInBounds s"
  shows "\<exists>z. currentZoom s = Fin z \<and> mn \<le> z \<and> z \<le> mx"
  using assms by (cases "currentZoom s") (auto simp add: zoomInBounds_def js_le_def js_eq_def)

lemma zoomInBounds_FinI:
  assumes "minZoom s = Fin mn" and "maxZoom s = Fin mx"
    and "\<exists>z. currentZoom s = Fin z \<and> mn \<le> z \<and> z \<le> mx"
  shows "zoomInBounds s"
  using assms by (auto simp add: zoomInBounds_def)

section \<open>The velocity estimate\<close>

lemma js_le_abs_Fin: "js_le (Math_abs v) (Fin c) = (\<exists>a. v = Fin a \<and> \<bar>a\<bar> \<le> c)"
  by (cases v) (auto simp add: js_le_def js_eq_def)

lemma capped_sample:
  assumes "sample \<noteq> NaN"
  shows "\<exists>b. Math_max (- vc_max) (Math_min vc_max sample) = Fin b \<and> \<bar>b\<bar> \<le> 0.75"
proof (cases sample)
  case (Fin x)
  then show ?thesis by (simp add: vc_max_def abs_le_iff)
next
  case PInf
  then show ?thesis
    by (intro exI [of _ "0.75"]) (simp add: vc_max_def Math_min_def Math_max_def)
next
  case NInf
  then show ?thesis
    by (intro exI [of _ "- 0.75"]) (simp add: vc_max_def Math_min_def Math_max_def)
next
  case NaN
  then show ?thesis using assms by simp
qed

lemma smoothed_sample_bound:
  assumes "js_le (Math_abs v) vc_max" and "sample \<noteq> NaN"
  shows "js_le (Math_abs ((Fin 1 - vc_smoothing) * v
           + vc_smoothing * Math_max (- vc_max) (Math_min vc_max sample))) vc_max"
proof -
  obtain a where a: "v = Fin a" "\<bar>a\<bar> \<le> 0.75"
    using assms(1) by (auto simp add: js_le_abs_Fin vc_max_def)
  obtain b where b: "Math_max (- vc_max) (Math_min vc_max sample) = Fin b" "\<bar>b\<bar> \<le> 0.75"
    using capped_sample [OF assms(2)] by blast
  have "\<bar>0.78 * a + 0.22 * b\<bar> \<le> 0.75"
    using a(2) b(2) unfolding abs_le_iff by auto
  then have g: "js_le (Math_abs ((Fin 1 - vc_smoothing) * v + vc_smoothing * Fin b)) vc_max"
    by (simp add: a(1) vc_smoothing_def vc_max_def)
  show ?thesis
    unfolding b(1) by (rule g)
qed

lemma sample_not_NaN:
  assumes "js_gt deltaTime (Fin 0)"
  shows "Fin a / deltaTime \<noteq> NaN"
  using assms by (cases deltaTime) (simp_all add: js_gt_def)

lemma getPanSpeedMultiplier_finite:
  assumes "isFinite (currentZoom s)" and "isFinite (minZoom s)" and "isFinite (maxZoom s)"
  shows "isFinite (getPanSpeedMultiplier s)"
  using assms by (auto simp add: isFinite_iff getPanSpeedMultiplier_def Let_def)

lemma recordVelocity_bound:
  assumes "velocityWithin vc_max s" and "dragReady s"
  shows "velocityWithin vc_max (recordVelocity (Fin x) (Fin y) now s)"
proof -
  obtain z lx ly where f: "currentZoom s = Fin z" "z \<noteq> 0" "lastPointerX s = Fin lx"
    "lastPointerY s = Fin ly"
    using assms(2) by (auto simp add: dragReady_def isFinite_iff)
  obtain m where m: "getPanSpeedMultiplier s * currentPanMultiplier s = Fin m"
    using assms(2) getPanSpeedMultiplier_finite [of s]
    by (auto simp add: dragReady_def isFinite_iff)
  show ?thesis
  proof (cases "truthy (lastPointerTime s) \<and> js_gt (now - lastPointerTime s) (Fin 0)")
    case False
    then show ?thesis
      using assms(1) by (auto simp add: recordVelocity_def Let_def velocityWithin_def)
  next
    case True
    have sx: "Fin ((x - lx) / z * m) / (now - lastPointerTime s) \<noteq> NaN"
      and sy: "Fin ((y - ly) / z * m) / (now - lastPointerTime s) \<noteq> NaN"
      using True by (simp_all add: sample_not_NaN)
    show ?thesis
      using True assms(1) smoothed_sample_bound [OF _ sx] smoothed_sample_bound [OF _ sy]
      by (simp add: recordVelocity_def Let_def velocityWithin_def f m)
  qed
qed

lemma recordVelocity_ready:
  assumes "dragReady s"
  shows "dragReady (recordVelocity (Fin x) (Fin y) now s)"
  using assms by (simp add: dragReady_def recordVelocity_def Let_def)

lemma updatePan_bound:
  assumes "velocityWithin vc_max s" and "dragReady s"
  shows "velocityWithin vc_max (updatePan (Fin x) (Fin y) now s)
       \<and> dragReady (updatePan (Fin x) (Fin y) now s)"
proof -
  let ?s1 = "updateViewBox (s\<lparr>panX := initialPanX s
      + ((Fin x - startX s) / currentZoom s) * (getPanSpeedMultiplier s * currentPanMultiplier s),
    panY := initialPanY s
      + ((Fin y - startY s) / currentZoom s) * (getPanSpeedMultiplier s * currentPanMultiplier s)\<rparr>)"
  have u: "updatePan (Fin x) (Fin y) now s = recordVelocity (Fin x) (Fin y) now ?s1"
    by (simp add: updatePan_def Let_def)
  have "velocityWithin vc_max ?s1" "dragReady ?s1"
    using assms by (simp_all add: velocityWithin_def dragReady_def updateViewBox_def)
  then show ?thesis
    unfolding u by (intro conjI recordVelocity_bound recordVelocity_ready)
qed

lemma dragMoves_bound:
  assumes "velocityWithin vc_max s" and "dragReady s"
    and "\<forall>m \<in> set moves. isFinite (fst m) \<and> isFinite (fst (snd m))"
  shows "velocityWithin vc_max (dragMoves moves s) \<and> dragReady (dragMoves moves s)"
  using assms
proof (induction moves arbitrary: s)
  case Nil
  then show ?case by simp
next
  case (Cons m moves)
  obtain x y now where m: "m = (Fin x, Fin y, now)"
    using Cons.prems(3) by (cases m) (auto simp add: isFinite_iff)
  have "velocityWithin vc_max (updatePan (Fin x) (Fin y) now s)
      \<and> dragReady (updatePan (Fin x) (Fin y) now s)"
    using Cons.prems(1,2) by (rule updatePan_bound)
  then show ?case
    using Cons.IH [of "updatePan (Fin x) (Fin y) now s"] Cons.prems(3) by (simp add: m)
qed

lemma beginPan_ready:
  assumes "isFinite (currentZoom s)" and "currentZoom s \<noteq> Fin 0"
    and "isFinite (minZoom s)" and "isFinite (maxZoom s)"
  shows "velocityWithin vc_max (beginPan (Fin x) (Fin y) inputType now s)
       \<and> dragReady (beginPan (Fin x) (Fin y) inputType now s)"
  using assms
  by (simp add: beginPan_def Let_def recordVelocity_def velocityWithin_def dragReady_def
      stopPanInertia_def stopPanAnimation_def cancelAnimationFrame_def vc_max_def
      TOUCH_PAN_MULTIPLIER_def split: option.split)

lemma startPanInertia_velocity:
  assumes "velocityWithin cap s" and "js_le (Fin 0) cap"
  shows "velocityWithin cap (startPanInertia now s)"
  using assms
  by (auto simp add: startPanInertia_def Let_def velocityWithin_def stopPanInertia_def
      cancelAnimationFrame_def requestAnimationFrame_def split: option.split)

lemma boosted_bound:
  assumes "js_le (Math_abs v) vc_max"
  shows "js_le (Math_abs (Math_max (- vc_flickMax) (Math_min vc_flickMax (v * vc_flickMultiplier))))
         vc_flickMax"
proof -
  obtain a where a: "v = Fin a"
    using assms by (auto simp add: js_le_abs_Fin vc_max_def)
  have "\<bar>max (- 0.9) (min 0.9 (a * 1.1))\<bar> \<le> (0.9::real)"
    unfolding abs_le_iff by auto
  then show ?thesis
    by (simp add: a vc_flickMax_def vc_flickMultiplier_def)
qed

lemma velocityWithin_weaken:
  "velocityWithin vc_max s \<Longrightarrow> velocityWithin vc_flickMax s"
  by (auto simp add: velocityWithin_def js_le_abs_Fin vc_max_def vc_flickMax_def)

lemma endPan_bound:
  assumes "velocityWithin vc_max s"
  shows "velocityWithin vc_flickMax (endPan skipInertia now s)"
proof -
  let ?s1 = "s\<lparr>isPanning := False, panInputType := Mouse, currentPanMultiplier := Fin 1\<rparr>"
  let ?s2 = "?s1\<lparr>panVelocityX :=
      Math_max (- vc_flickMax) (Math_min vc_flickMax (panVelocityX ?s1 * vc_flickMultiplier)),
    panVelocityY :=
      Math_max (- vc_flickMax) (Math_min vc_flickMax (panVelocityY ?s1 * vc_flickMultiplier))\<rparr>"
  have z: "js_le (Fin 0) vc_flickMax"
    by (simp add: vc_flickMax_def)
  have w1: "velocityWithin vc_flickMax ?s1"
    using velocityWithin_weaken [OF assms] by (simp add: velocityWithin_def)
  have w2: "velocityWithin vc_flickMax ?s2"
    using assms by (simp add: velocityWithin_def boosted_bound)
  show ?thesis
    using velocityWithin_weaken [OF assms] w1 w2
      startPanInertia_velocity [OF w1 z] startPanInertia_velocity [OF w2 z]
    by (simp add: endPan_def Let_def)
qed

section \<open>Stopping and starting gestures\<close>

lemma stopPanInertia_twice: "stopPanInertia r (stopPanInertia r s) = stopPanInertia r s"
  by (simp add: stopPanInertia_def cancelAnimationFrame_def Let_def split: option.split)

lemma stopPanAnimation_twice: "stopPanAnimation (stopPanAnimation s) = stopPanAnimation s"
  by (simp add: stopPanAnimation_def cancelAnimationFrame_def Let_def split: option.split)

lemma stop_both_twice:
  "stopPanAnimation (stopPanInertia r (stopPanAnimation (stopPanInertia r s)))
   = stopPanAnimation (stopPanInertia r s)"
  by (simp add: stopPanAnimation_def stopPanInertia_def cancelAnimationFrame_def Let_def
      split: option.split)

lemma stopPanAnimation_complete: "panAnimationComplete (stopPanAnimation s) = None"
  by (simp add: stopPanAnimation_def)

lemma stop_both_queue:
  "rafQueue (stopPanAnimation (stopPanInertia r s)) =
     filter (\<lambda>e. panInertiaFrame s \<noteq> Some (fst e) \<and> panAnimationFrame s \<noteq> Some (fst e)) (rafQueue s)"
  by (auto simp add: stopPanAnimation_def stopPanInertia_def cancelAnimationFrame_def Let_def
      split: option.split intro: filter_cong)

lemma stop_both_empties:
  assumes "motionTracked s"
  shows "rafQueue (stopPanAnimation (stopPanInertia r s)) = []"
  using assms unfolding stop_both_queue motionTracked_def
  by (auto simp add: filter_empty_conv)

lemma sample_centering_fields:
  "panAnimationFrame sample_centering = Some 1" "panInertiaFrame sample_centering = None"
  "map fst (rafQueue sample_centering) = [1]"
  "\<not> isPanning sample_centering" "\<not> pinchActive sample_centering"
  by (simp_all add: sample_centering_def centerOnCoordinates_def defaultOptions_def Let_def
      constructed_fields animatePan_def requestAnimationFrame_def stopPanAnimation_def
      stopPanInertia_def split_def constructed_def updateViewBox_def)



lemma stop_keeps_more [simp]:
  "panVelocityX (stopPanInertia True s) = Fin 0" "panVelocityY (stopPanInertia True s) = Fin 0"
  "rafQueue (s\<lparr>isMultiTouchGesture := b\<rparr>) = rafQueue s"
  by (simp_all add: stopPanInertia_def Let_def cancelAnimationFrame_def split: option.split)

lemma sample_pan_fields:
  "isPanning sample_pan" "panX sample_pan = Fin (- 60)" "panY sample_pan = Fin 0"
  "currentZoom sample_pan = Fin 1" "minZoom sample_pan = Fin 1" "maxZoom sample_pan = Fin 8"
  "startX sample_pan = Fin 10" "startY sample_pan = Fin 50"
  "initialPanX sample_pan = Fin (- 60)" "initialPanY sample_pan = Fin 0"
  by (simp_all add: sample_pan_def touchStartHandler_def Let_def beginPan_fields
      resetPinchState_def constructed_fields)

lemma sample_pinch_fields:
  "pinchActive sample_pinch" "currentZoom sample_pinch = Fin 1"
  "minZoom sample_pinch = Fin 1" "maxZoom sample_pinch = Fin 8"
  "pinchStartZoom sample_pinch = Fin 1" "pinchStartDistance sample_pinch = Fin (sqrt 6400)"
  by (simp_all add: sample_pinch_def touchStartHandler_def two_touches_def Let_def
      sample_pan_fields getTouchDistance_def js_or_def)

section \<open>The inertia loop, frame by frame\<close>














section \<open>Properties of the viewBox\<close>



section \<open>Properties of the pinch\<close>

text \<open>
  Claim C9. After a pinch update on a client rectangle of positive area, with finite
  inputs and a positive target zoom, the derived viewBox lies inside the canvas: its x is
  in \<open>[0, max 0 (baseWidth - width)]\<close> and its y in \<open>[0, max 0 (baseHeight - height)]\<close>.
\<close>

theorem pinch_viewBox_inside_canvas:
  assumes "currentZoom s = Fin z" and "0 < z"
    and "panX s = Fin px" and "panY s = Fin py"
    and "baseWidth s = Fin bw" and "baseHeight s = Fin bh"
    and "rect_left rect = Fin l" and "rect_top rect = Fin tp"
    and "rect_width rect = Fin w" and "rect_height rect = Fin h"
    and "0 < w" and "0 < h" and "0 < tz"
    and "vb = getViewBox (updatePanForPinch (Fin tz) (Fin cx) (Fin cy) rect s)"
  shows "js_le (Fin 0) (vb_x vb)
       \<and> js_le (vb_x vb) (Math_max (Fin 0) (baseWidth s - vb_width vb))
       \<and> js_le (Fin 0) (vb_y vb)
       \<and> js_le (vb_y vb) (Math_max (Fin 0) (baseHeight s - vb_height vb))"
proof -
  have nz: "z \<noteq> 0" "w \<noteq> 0" "h \<noteq> 0" "tz \<noteq> 0"
    using assms by simp_all
  define cX where "cX = min (max ((- px + (bw - bw / z) / 2) + bw / z * min (max ((cx - l) / w) 0) 1
                   - min (max ((cx - l) / w) 0) 1 * (bw / tz)) 0) (max 0 (bw - bw / tz))"
  define cY where "cY = min (max ((- py + (bh - bh / z) / 2) + bh / z * min (max ((cy - tp) / h) 0) 1
                   - min (max ((cy - tp) / h) 0) 1 * (bh / tz)) 0) (max 0 (bh - bh / tz))"
  have upd: "updatePanForPinch (Fin tz) (Fin cx) (Fin cy) rect s =
    updateViewBox (s\<lparr>currentZoom := Fin tz, panX := Fin ((bw - bw / tz) / 2 - cX),
      panY := Fin ((bh - bh / tz) / 2 - cY)\<rparr>)"
    unfolding cX_def cY_def
    by (rule updatePanForPinch_Fin [OF assms(1) nz(1) assms(3-10) nz(2,3,4)])
  have bX: "0 \<le> cX" "cX \<le> max 0 (bw - bw / tz)"
    unfolding cX_def by (rule clamp_bounds)+
  have bY: "0 \<le> cY" "cY \<le> max 0 (bh - bh / tz)"
    unfolding cY_def by (rule clamp_bounds)+
  have vb: "vb = \<lparr>vb_x = Fin cX, vb_y = Fin cY, vb_width = Fin (bw / tz), vb_height = Fin (bh / tz)\<rparr>"
    unfolding assms(14) upd
    using assms(5,6) nz(4)
    by (simp add: getViewBox_Fin [where z = tz and bw = bw and bh = bh])
  show ?thesis
    using bX bY by (simp add: vb assms(5,6))
qed

theorem pinch_viewBox_inside_canvas_witness:
  "js_le (Fin 0)
     (vb_x (getViewBox (updatePanForPinch (Fin 2) (Fin 100) (Fin 50) square_rect constructed)))
 \<and> js_le (vb_x (getViewBox (updatePanForPinch (Fin 2) (Fin 100) (Fin 50) square_rect constructed)))
     (Math_max (Fin 0) (baseWidth constructed
        - vb_width (getViewBox (updatePanForPinch (Fin 2) (Fin 100) (Fin 50) square_rect constructed))))
 \<and> js_le (Fin 0)
     (vb_y (getViewBox (updatePanForPinch (Fin 2) (Fin 100) (Fin 50) square_rect constructed)))
 \<and> js_le (vb_y (getViewBox (updatePanForPinch (Fin 2) (Fin 100) (Fin 50) square_rect constructed)))
     (Math_max (Fin 0) (baseHeight constructed
        - vb_height (getViewBox (updatePanForPinch (Fin 2) (Fin 100) (Fin 50) square_rect constructed))))"
  by (rule pinch_viewBox_inside_canvas
      [where s = constructed and rect = square_rect and z = 1 and tz = 2
         and w = 100 and h = 100])
     (simp_all add: constructed_fields square_rect_fields)




section \<open>Properties of the drag\<close>

text \<open>
  Claim C7. At zoom 1 (the minimum zoom), the mouse drag \<open>beginPan(100,100)\<close>,
  \<open>updatePan(150,130)\<close>, \<open>endPan()\<close> leaves the pan at the pan of the start plus
  \<open>(50, 30)\<close>, whatever the clock reads; an inertia step afterwards adds its velocity
  times the elapsed time to that pan.
\<close>

theorem drag_round_trip:
  assumes "currentZoom s = Fin 1" and "minZoom s = Fin 1" and "maxZoom s = Fin mx"
    and "panX s = Fin px" and "panY s = Fin py"
    and "s' = endPan False te (updatePan (Fin 150) (Fin 130) tm
                (beginPan (Fin 100) (Fin 100) Mouse tb s))"
  shows "panX s' = Fin (px + 50) \<and> panY s' = Fin (py + 30)
       \<and> panX (inertiaStep te tf s') = Fin (px + 50) + panVelocityX s' * (tf - te)
       \<and> panY (inertiaStep te tf s') = Fin (py + 30) + panVelocityY s' * (tf - te)"
proof -
  let ?b = "beginPan (Fin 100) (Fin 100) Mouse tb s"
  have m: "getPanSpeedMultiplier ?b = Fin 1"
    by (rule getPanSpeedMultiplier_min_zoom [where z = 1 and mx = mx])
       (simp_all add: beginPan_fields assms)
  have u: "panX (updatePan (Fin 150) (Fin 130) tm ?b) = Fin (px + 50)
         \<and> panY (updatePan (Fin 150) (Fin 130) tm ?b) = Fin (py + 30)"
    by (simp add: updatePan_def Let_def m beginPan_fields assms updateViewBox_def)
  have p: "panX s' = Fin (px + 50) \<and> panY s' = Fin (py + 30)"
    using u by (simp add: assms(6))
  have i: "panX (inertiaStep te tf s') = panX s' + panVelocityX s' * (tf - te)
         \<and> panY (inertiaStep te tf s') = panY s' + panVelocityY s' * (tf - te)"
    by (simp add: inertiaStep_def Let_def updateViewBox_def requestAnimationFrame_def
        split: prod.split)
  show ?thesis using p i by simp
qed

theorem drag_round_trip_witness:
  "panX sample_drag = Fin (- 60 + 50) \<and> panY sample_drag = Fin (0 + 30)
 \<and> panX (inertiaStep (Fin 1020) (Fin 1036) sample_drag)
     = Fin (- 60 + 50) + panVelocityX sample_drag * (Fin 1036 - Fin 1020)
 \<and> panY (inertiaStep (Fin 1020) (Fin 1036) sample_drag)
     = Fin (0 + 30) + panVelocityY sample_drag * (Fin 1036 - Fin 1020)"
  by (rule drag_round_trip [where s = constructed and mx = 8 and tb = "Fin 1000"
        and tm = "Fin 1016"])
     (simp_all add: constructed_fields sample_drag_def)

section \<open>Properties of the zoom\<close>

text \<open>
  Claim C6. With finite bounds \<open>0 < minZoom \<le> maxZoom\<close> and the zoom within them, the
  zoom is within them again after each operation that changes it: a wheel event of any
  delta, delta mode and modifier, a pinch update of any touch points in a pinch whose
  start distance is finite and whose start zoom is finite and positive, the zoom-in and
  zoom-out buttons, and centering with any options. Each operation assigns the zoom at
  most once, a value already clamped.
\<close>

theorem zoom_stays_in_bounds:
  assumes "minZoom s = Fin mn" and "maxZoom s = Fin mx" and "0 < mn" and "mn \<le> mx"
    and "zoomInBounds s"
    and "isFinite (pinchStartDistance s)" and "isFinite (pinchStartZoom s)"
    and "js_lt (Fin 0) (pinchStartZoom s)"
  shows "zoomInBounds (wheelHandler deltaY deltaMode ctrlKey s)
       \<and> zoomInBounds (handlePinchMove touches rect s)
       \<and> zoomInBounds (zoomIn s)
       \<and> zoomInBounds (zoomOut s)
       \<and> zoomInBounds (centerOnCoordinates x y options mobile now s)"
proof -
  obtain z where z: "currentZoom s = Fin z" "mn \<le> z" "z \<le> mx"
    using zoomInBounds_FinD [OF assms(1,2,5)] by blast
  have zp: "0 < z" using assms(3) z(2) by simp
  obtain d zs where p: "pinchStartDistance s = Fin d" "pinchStartZoom s = Fin zs" "0 < zs"
    using assms(6,7,8) by (auto simp add: isFinite_iff)
  have "zoomInBounds (wheelHandler deltaY deltaMode ctrlKey s)"
    by (rule zoomInBounds_FinI [where mn = mn and mx = mx])
       (simp_all add: wheel_bounds_kept assms(1,2)
          wheel_zoom [OF assms(1,2,4) z(1) zp z(2,3)])
  moreover have "zoomInBounds (handlePinchMove touches rect s)"
    by (rule zoomInBounds_FinI [where mn = mn and mx = mx])
       (simp_all add: handlePinchMove_bounds_kept assms(1,2)
          pinch_zoom [OF assms(1,2,4) z p])
  moreover have "zoomInBounds (zoomIn s)"
    using zoomIn_zoom [OF assms(1,2,3,4) z] z(2) zp assms(4)
    by (intro zoomInBounds_FinI [where mn = mn and mx = mx]) simp_all
  moreover have "zoomInBounds (zoomOut s)"
    using zoomOut_zoom [OF assms(1,2) z(1)] assms(4)
    by (intro zoomInBounds_FinI [where mn = mn and mx = mx]) simp_all
  moreover have "zoomInBounds (centerOnCoordinates x y options mobile now s)"
    by (rule zoomInBounds_FinI [where mn = mn and mx = mx])
       (simp_all add: center_bounds_kept assms(1,2)
          center_zoom [OF assms(1,2,4) z])
  ultimately show ?thesis by simp
qed

theorem zoom_stays_in_bounds_witness:
  "zoomInBounds (wheelHandler (Fin (- 100)) 0 True sample_pinch)
 \<and> zoomInBounds (handlePinchMove [inf_touch, right_touch] square_rect sample_pinch)
 \<and> zoomInBounds (zoomIn sample_pinch)
 \<and> zoomInBounds (zoomOut sample_pinch)
 \<and> zoomInBounds (centerOnCoordinates (Fin 575) (Fin 680)
       (defaultOptions\<lparr>opt_minZoom := Some (Fin 20)\<rparr>) False (Fin 0) sample_pinch)"
  by (rule zoom_stays_in_bounds [where mn = 1 and mx = 8])
     (simp_all add: sample_pinch_fields zoomInBounds_def)

section \<open>Properties of the velocity\<close>

text \<open>
  Claim C10. In a drag on a state with a finite non-zero zoom and finite zoom bounds,
  begun at a finite point and continued by any number of moves to finite points, at any
  clock readings, both components of the smoothed pan velocity stay within 0.75 in
  absolute value after every move; after the release both are within 0.9, so inertia is
  never started with a component beyond 0.9.
\<close>

theorem pan_velocity_bounded:
  assumes "isFinite (currentZoom s)" and "currentZoom s \<noteq> Fin 0"
    and "isFinite (minZoom s)" and "isFinite (maxZoom s)"
    and "\<forall>m \<in> set moves. isFinite (fst m) \<and> isFinite (fst (snd m))"
    and "g = dragMoves moves (beginPan (Fin x) (Fin y) inputType now s)"
  shows "velocityWithin vc_max g \<and> velocityWithin vc_flickMax (endPan skipInertia released g)"
proof -
  have b: "velocityWithin vc_max (beginPan (Fin x) (Fin y) inputType now s)"
    "dragReady (beginPan (Fin x) (Fin y) inputType now s)"
    using beginPan_ready [OF assms(1-4)] by simp_all
  have "velocityWithin vc_max g"
    unfolding assms(6) using dragMoves_bound [OF b assms(5)] by simp
  then show ?thesis
    by (simp add: endPan_bound)
qed

theorem pan_velocity_bounded_witness:
  "velocityWithin vc_max
     (dragMoves [(Fin 150, Fin 130, Fin 1016)]
        (beginPan (Fin 100) (Fin 100) Mouse (Fin 1000) constructed))
 \<and> velocityWithin vc_flickMax
     (endPan False (Fin 1020)
        (dragMoves [(Fin 150, Fin 130, Fin 1016)]
           (beginPan (Fin 100) (Fin 100) Mouse (Fin 1000) constructed)))"
  by (rule pan_velocity_bounded [where s = constructed
        and moves = "[(Fin 150, Fin 130, Fin 1016)]" and x = 100 and y = 100
        and inputType = Mouse and now = "Fin 1000"])
     (simp_all add: constructed_fields)

section \<open>Properties of stopping\<close>

text \<open>
  Claim C8, as stated, fails in its last part: the two stop operations do not end in the
  idle state from every state. They leave \<open>isPanning\<close> and \<open>pinchActive\<close> alone, so
  from the sample pan, where a drag is in progress, a round of stopping (which a second
  round does not change) leaves the drag in progress.
\<close>

theorem stop_not_idle_counterexample:
  "stopPanAnimation (stopPanInertia True (stopPanAnimation (stopPanInertia True sample_pan)))
     = stopPanAnimation (stopPanInertia True sample_pan)
 \<and> isPanning (stopPanAnimation (stopPanInertia True sample_pan))
 \<and> \<not> machineIdle (stopPanAnimation (stopPanInertia True sample_pan))"
  by (simp add: stop_both_twice machineIdle_def sample_pan_fields(1))

text \<open>
  Claim C8, amended. From any state, stopping the inertia and the centering animation a
  second time changes nothing: the state after two rounds is the state after one, and so
  for each of the two operations alone. After one round the map holds no frame handle
  and no completion callback, and, when every pending callback was one whose handle the
  map held, no callback is pending: no inertia loop and no centering animation remains.
  A pan or a pinch in progress stays in progress, so the round ends in the idle state
  exactly when none was.
\<close>

theorem stop_idempotent:
  assumes "once = stopPanAnimation (stopPanInertia resetVelocity s)"
  shows "stopPanAnimation (stopPanInertia resetVelocity once) = once
       \<and> stopPanInertia resetVelocity (stopPanInertia resetVelocity s)
           = stopPanInertia resetVelocity s
       \<and> stopPanAnimation (stopPanAnimation s) = stopPanAnimation s
       \<and> panInertiaFrame once = None \<and> panAnimationFrame once = None
       \<and> panAnimationComplete once = None
       \<and> (motionTracked s \<longrightarrow> rafQueue once = [])
       \<and> isPanning once = isPanning s \<and> pinchActive once = pinchActive s
       \<and> machineIdle once = (\<not> isPanning s \<and> \<not> pinchActive s)"
  unfolding assms
  by (simp add: stop_both_twice stopPanInertia_twice stopPanAnimation_twice stop_both_empties
      stopPanAnimation_complete machineIdle_def)

theorem stop_idempotent_witness:
  "motionTracked sample_centering \<and> rafQueue sample_centering \<noteq> []
 \<and> \<not> machineIdle sample_centering
 \<and> stopPanAnimation (stopPanInertia True (stopPanAnimation (stopPanInertia True sample_centering)))
     = stopPanAnimation (stopPanInertia True sample_centering)
 \<and> rafQueue (stopPanAnimation (stopPanInertia True sample_centering)) = []
 \<and> machineIdle (stopPanAnimation (stopPanInertia True sample_centering))"
proof -
  have t: "motionTracked sample_centering"
    using sample_centering_fields(3)
    by (auto simp add: motionTracked_def sample_centering_fields(1,2))
  have q: "rafQueue sample_centering \<noteq> []"
    using sample_centering_fields(3) by auto
  have n: "\<not> machineIdle sample_centering"
    by (simp add: machineIdle_def sample_centering_fields(1))
  show ?thesis
    using stop_idempotent [OF refl, of True sample_centering] t q n
    by (simp add: sample_centering_fields(4,5))
qed

section \<open>Properties of the touch router\<close>



section \<open>Properties of the input checks\<close>

text \<open>
  Claim C3, as stated, fails for the pan update and for a pinch update with an infinite
  coordinate: neither is checked. In the sample pan, \<open>updatePan\<close> with a NaN pointer
  coordinate turns the pan offset from \<open>-60\<close> into NaN. In the sample pinch, a touch
  point at \<open>Infinity\<close> makes the finger distance infinite, and the update takes the
  zoom from 1 to the maximum.
\<close>

theorem nonfinite_input_counterexample:
  "panX sample_pan = Fin (- 60)
 \<and> panX (updatePan NaN (Fin 130) (Fin 1016) sample_pan) = NaN
 \<and> currentZoom sample_pinch = Fin 1
 \<and> currentZoom (handlePinchMove [inf_touch, right_touch] square_rect sample_pinch) = Fin 8"
proof -
  have a: "panX (updatePan NaN (Fin 130) (Fin 1016) sample_pan) = NaN"
    by (simp add: updatePan_def Let_def sample_pan_fields minus_jnum_def)
  have p: "(0::real) < sqrt 6400"
    by simp
  have b: "currentZoom (handlePinchMove [inf_touch, right_touch] square_rect sample_pinch) = Fin 8"
    using p
    by (simp add: inf_touch_def right_touch_def sample_pinch_fields getTouchDistance_def getTouchMidpoint_def
        Let_def minus_jnum_def truthy_def js_eq_def signed_inf_def clamp_def Math_max_def
        Math_min_def del: Math_max_Fin Math_min_Fin clamp_Fin)
  show ?thesis
    using a b by (simp add: sample_pan_fields sample_pinch_fields)
qed

text \<open>
  Claim C3, amended. Centering on a target with a non-finite coordinate is ignored: the
  state is left as it was. A pinch update whose finger distance is NaN or zero is
  ignored likewise. (The pan update makes no such check.)
\<close>

theorem nonfinite_input_ignored:
  "(\<not> isFinite x \<or> \<not> isFinite y \<longrightarrow> centerOnCoordinates x y options mobile now s = s)
 \<and> (\<not> truthy (getTouchDistance touchA touchB)
      \<longrightarrow> handlePinchMove (touchA # touchB # rest) rect s = s)"
  by (simp add: centerOnCoordinates_def Let_def)

theorem nonfinite_input_ignored_witness:
  "\<not> isFinite NaN
 \<and> centerOnCoordinates NaN (Fin 680) defaultOptions False (Fin 1300) sample_pinch = sample_pinch
 \<and> getTouchDistance nan_touch right_touch = NaN
 \<and> handlePinchMove [nan_touch, right_touch] square_rect sample_pinch = sample_pinch"
proof -
  have d: "getTouchDistance nan_touch right_touch = NaN"
    by (simp add: nan_touch_def right_touch_def getTouchDistance_def minus_jnum_def)
  have t: "\<not> truthy (getTouchDistance nan_touch right_touch)"
    by (simp add: d truthy_def)
  note inst = nonfinite_input_ignored [where x = NaN and y = "Fin 680" and options = defaultOptions
      and mobile = False and now = "Fin 1300" and s = sample_pinch and touchA = nan_touch
      and touchB = right_touch and rest = "[]" and rect = square_rect]
  have "handlePinchMove [nan_touch, right_touch] square_rect sample_pinch = sample_pinch"
    using inst t by blast
  moreover have "centerOnCoordinates NaN (Fin 680) defaultOptions False (Fin 1300) sample_pinch
      = sample_pinch"
    using inst by simp
  ultimately show ?thesis
    using d by simp
qed

section \<open>Properties of the inertia\<close>




end
